theory Spec2Isabelle
  imports Complex_Main
begin

section \<open>Pareto-front identification (\<open>identify_pareto\<close> of \<open>src/app.py\<close>)\<close>

subsection \<open>Array elements and their comparisons\<close>

text \<open>
  The rows of \<open>scores\<close> hold double-precision numbers. The function only ever compares
  them, so an element is modelled by what a comparison can see: not-a-number, one of the
  two infinities, or a finite value. Every comparison that involves \<open>NaN\<close> is false;
  otherwise the comparisons are those of the extended real line.
\<close>

datatype float64 = NaN | NegInf | Finite real | PosInf

fun fle :: "float64 \<Rightarrow> float64 \<Rightarrow> bool" where
  "fle NaN _ = False"
| "fle _ NaN = False"
| "fle NegInf _ = True"
| "fle _ PosInf = True"
| "fle PosInf _ = False"
| "fle _ NegInf = False"
| "fle (Finite a) (Finite b) = (a \<le> b)"

fun flt :: "float64 \<Rightarrow> float64 \<Rightarrow> bool" where
  "flt NaN _ = False"
| "flt _ NaN = False"
| "flt PosInf _ = False"
| "flt _ NegInf = False"
| "flt NegInf _ = True"
| "flt _ PosInf = True"
| "flt (Finite a) (Finite b) = (a < b)"

definition fge :: "float64 \<Rightarrow> float64 \<Rightarrow> bool" where
  "fge a b = fle b a"

definition fgt :: "float64 \<Rightarrow> float64 \<Rightarrow> bool" where
  "fgt a b = flt b a"

subsection \<open>The numpy and Python operations the function uses\<close>

text \<open>
  \<open>scores\<close> is a two-dimensional array, modelled as the list of its rows; all rows of one
  array have the same length. \<open>r >= s\<close> on two rows compares them element by element;
  \<open>all\<close> and \<open>any\<close> are Python's built-ins on the resulting booleans.
  Indexing a row at a position it does not have raises \<open>IndexError\<close>; \<open>bind_err\<close>
  passes a raised exception on instead of the value.
\<close>

datatype py_error = IndexError

definition np_ge :: "float64 list \<Rightarrow> float64 list \<Rightarrow> bool list" where
  "np_ge r s = map2 fge r s"

definition np_gt :: "float64 list \<Rightarrow> float64 list \<Rightarrow> bool list" where
  "np_gt r s = map2 fgt r s"

definition np_le :: "float64 list \<Rightarrow> float64 list \<Rightarrow> bool list" where
  "np_le r s = map2 fle r s"

definition np_lt :: "float64 list \<Rightarrow> float64 list \<Rightarrow> bool list" where
  "np_lt r s = map2 flt r s"

definition py_all :: "bool list \<Rightarrow> bool" where
  "py_all bs = list_all (\<lambda>b. b) bs"

definition py_any :: "bool list \<Rightarrow> bool" where
  "py_any bs = list_ex (\<lambda>b. b) bs"

definition getitem :: "'a list \<Rightarrow> nat \<Rightarrow> py_error + 'a" where
  "getitem xs k = (if k < length xs then Inr (xs ! k) else Inl IndexError)"

definition bind_err :: "py_error + 'a \<Rightarrow> ('a \<Rightarrow> py_error + 'b) \<Rightarrow> py_error + 'b" where
  "bind_err r f = (case r of Inl e \<Rightarrow> Inl e | Inr a \<Rightarrow> f a)"

subsection \<open>The four loop conditions\<close>

text \<open>
  Each branch of \<open>identify_pareto\<close> runs the same pair of loops with its own condition.
  Python's \<open>and\<close> evaluates from left to right and stops at the first false operand, so
  an element that is not reached is not indexed. The row accesses \<open>scores[j]\<close> and
  \<open>scores[i]\<close> are always in range, since \<open>i\<close> and \<open>j\<close> run over
  \<open>range(scores.shape[0])\<close>.
\<close>

definition cond_max_max :: "float64 list list \<Rightarrow> nat \<Rightarrow> nat \<Rightarrow> py_error + bool" where
  "cond_max_max scores i j =
     Inr (py_all (np_ge (scores ! j) (scores ! i)) \<and>
          py_any (np_gt (scores ! j) (scores ! i)) \<and> i \<noteq> j)"

definition cond_max_min :: "float64 list list \<Rightarrow> nat \<Rightarrow> nat \<Rightarrow> py_error + bool" where
  "cond_max_min scores i j =
     bind_err (getitem (scores ! j) 0) (\<lambda>a.
     bind_err (getitem (scores ! i) 0) (\<lambda>b.
     if \<not> fge a b then Inr False else
     bind_err (getitem (scores ! j) 1) (\<lambda>c.
     bind_err (getitem (scores ! i) 1) (\<lambda>d.
     Inr (flt c d \<and> i \<noteq> j)))))"

definition cond_min_max :: "float64 list list \<Rightarrow> nat \<Rightarrow> nat \<Rightarrow> py_error + bool" where
  "cond_min_max scores i j =
     bind_err (getitem (scores ! j) 0) (\<lambda>a.
     bind_err (getitem (scores ! i) 0) (\<lambda>b.
     if \<not> flt a b then Inr False else
     bind_err (getitem (scores ! j) 1) (\<lambda>c.
     bind_err (getitem (scores ! i) 1) (\<lambda>d.
     Inr (fge c d \<and> i \<noteq> j)))))"

definition cond_min_min :: "float64 list list \<Rightarrow> nat \<Rightarrow> nat \<Rightarrow> py_error + bool" where
  "cond_min_min scores i j =
     Inr (py_all (np_le (scores ! j) (scores ! i)) \<and>
          py_any (np_lt (scores ! j) (scores ! i)) \<and> i \<noteq> j)"

subsection \<open>The loops and the function\<close>

text \<open>
  \<open>inner_loop\<close> is \<open>for j in range(n)\<close> for one \<open>i\<close>: at the first \<open>j\<close> whose condition
  holds it stores \<open>False\<close> at \<open>is_pareto[i]\<close> and breaks. \<open>outer_loop\<close> is
  \<open>for i in range(n)\<close>. An exception raised by a condition ends both loops.
\<close>

fun inner_loop :: "(nat \<Rightarrow> nat \<Rightarrow> py_error + bool) \<Rightarrow> nat \<Rightarrow> nat list \<Rightarrow> bool list
    \<Rightarrow> py_error + bool list" where
  "inner_loop cond i [] is_pareto = Inr is_pareto"
| "inner_loop cond i (j # js) is_pareto =
     (case cond i j of
        Inl e \<Rightarrow> Inl e
      | Inr b \<Rightarrow> if b then Inr (is_pareto[i := False]) else inner_loop cond i js is_pareto)"

fun outer_loop :: "(nat \<Rightarrow> nat \<Rightarrow> py_error + bool) \<Rightarrow> nat list \<Rightarrow> nat list \<Rightarrow> bool list
    \<Rightarrow> py_error + bool list" where
  "outer_loop cond js [] is_pareto = Inr is_pareto"
| "outer_loop cond js (i # is) is_pareto =
     (case inner_loop cond i js is_pareto of
        Inl e \<Rightarrow> Inl e
      | Inr is_pareto' \<Rightarrow> outer_loop cond js is is_pareto')"

definition identify_pareto :: "float64 list list \<Rightarrow> bool \<Rightarrow> bool \<Rightarrow> py_error + bool list" where
  "identify_pareto scores bigger_is_better_x bigger_is_better_y =
     (let n = length scores; is_pareto = replicate n True in
      if bigger_is_better_x \<and> bigger_is_better_y then
        outer_loop (cond_max_max scores) [0..<n] [0..<n] is_pareto
      else if bigger_is_better_x then
        outer_loop (cond_max_min scores) [0..<n] [0..<n] is_pareto
      else if bigger_is_better_y then
        outer_loop (cond_min_max scores) [0..<n] [0..<n] is_pareto
      else
        outer_loop (cond_min_min scores) [0..<n] [0..<n] is_pareto)"

text \<open>
  The caller builds \<open>scores\<close> as \<open>np.vstack((x, y)).T\<close>: one row \<open>[x, y]\<close> per point.
\<close>

definition scores_of :: "(float64 \<times> float64) list \<Rightarrow> float64 list list" where
  "scores_of pts = map (\<lambda>(x, y). [x, y]) pts"

subsection \<open>The specified dominance rules and front\<close>

text \<open>
  The dominance rules as the specification words them, on points \<open>(x, y)\<close>:
  \<open>dominates_max_max q p\<close> reads "\<open>q\<close> dominates \<open>p\<close> when both axes are maximised", and so on
  for the other three direction pairs; \<open>dominates bx by\<close> selects the rule from the two flags
  (\<open>True\<close> is MAXIMIZE, \<open>False\<close> is MINIMIZE). A point is on the front when no other index
  holds a point that dominates it, and \<open>pareto_mask\<close> is the mask of the front in input order.
  \<open>no_nan\<close> says that no coordinate is not-a-number.
\<close>

definition dominates_max_max :: "float64 \<times> float64 \<Rightarrow> float64 \<times> float64 \<Rightarrow> bool" where
  "dominates_max_max q p =
     (fge (fst q) (fst p) \<and> fge (snd q) (snd p) \<and>
      (fgt (fst q) (fst p) \<or> fgt (snd q) (snd p)))"

definition dominates_min_min :: "float64 \<times> float64 \<Rightarrow> float64 \<times> float64 \<Rightarrow> bool" where
  "dominates_min_min q p =
     (fle (fst q) (fst p) \<and> fle (snd q) (snd p) \<and>
      (flt (fst q) (fst p) \<or> flt (snd q) (snd p)))"

definition dominates_max_min :: "float64 \<times> float64 \<Rightarrow> float64 \<times> float64 \<Rightarrow> bool" where
  "dominates_max_min q p = (fge (fst q) (fst p) \<and> flt (snd q) (snd p))"

definition dominates_min_max :: "float64 \<times> float64 \<Rightarrow> float64 \<times> float64 \<Rightarrow> bool" where
  "dominates_min_max q p = (flt (fst q) (fst p) \<and> fge (snd q) (snd p))"

definition dominates :: "bool \<Rightarrow> bool \<Rightarrow> float64 \<times> float64 \<Rightarrow> float64 \<times> float64 \<Rightarrow> bool" where
  "dominates bx by q p =
     (if bx \<and> by then dominates_max_max q p
      else if bx then dominates_max_min q p
      else if by then dominates_min_max q p
      else dominates_min_min q p)"

definition non_dominated ::
  "(float64 \<times> float64 \<Rightarrow> float64 \<times> float64 \<Rightarrow> bool) \<Rightarrow> (float64 \<times> float64) list \<Rightarrow> nat \<Rightarrow> bool" where
  "non_dominated d pts i = (\<not> (\<exists>j\<in>set [0..<length pts]. j \<noteq> i \<and> d (pts ! j) (pts ! i)))"

definition pareto_mask ::
  "(float64 \<times> float64 \<Rightarrow> float64 \<times> float64 \<Rightarrow> bool) \<Rightarrow> (float64 \<times> float64) list \<Rightarrow> bool list" where
  "pareto_mask d pts = map (non_dominated d pts) [0..<length pts]"

definition no_nan :: "(float64 \<times> float64) list \<Rightarrow> bool" where
  "no_nan pts = list_all (\<lambda>(x, y). x \<noteq> NaN \<and> y \<noteq> NaN) pts"

subsection \<open>The function on a store of arrays\<close>

text \<open>
  To say what a call does to the arrays around it, the function is modelled a second time
  with its arrays in a store. The store (a \<open>heap\<close>) is the list of the arrays allocated
  so far, and the address of an array is its position in that list; \<open>np.ones\<close> allocates
  at the end.
  The parameter \<open>scores\<close> is an address. Every read of \<open>scores.shape[0]\<close>, \<open>scores[j]\<close> and
  \<open>scores[i]\<close> goes through the store as it is at that moment, and \<open>is_pareto[i] = False\<close>
  updates the store at the address of \<open>is_pareto\<close>. The loop conditions are the four
  conditions above, applied to the rows read from the store; the arrays that a comparison
  creates are read once by \<open>all\<close> or \<open>any\<close> and are unreachable afterwards, so
  they are left out of the store. The range of the outer loop is computed once, that of the
  inner loop at every iteration of the outer loop.

  A call yields the exception it raised or the address of the mask it returns, together with
  the store it leaves behind. \<open>returned_mask\<close> is what the caller can read through that
  result: the exception, or the contents of the returned array. The function is described
  for a \<open>scores\<close> that refers to a two-dimensional array of numbers, as above.
\<close>

datatype ndarray = FloatMatrix "float64 list list" | BoolVector "bool list"

type_synonym heap = "ndarray list"

fun rows_of :: "ndarray \<Rightarrow> float64 list list" where
  "rows_of (FloatMatrix m) = m"
| "rows_of (BoolVector v) = []"

fun bits_of :: "ndarray \<Rightarrow> bool list" where
  "bits_of (BoolVector v) = v"
| "bits_of (FloatMatrix m) = []"

definition shape0 :: "heap \<Rightarrow> nat \<Rightarrow> nat" where
  "shape0 h a = length (rows_of (h ! a))"

definition np_ones_bool :: "nat \<Rightarrow> heap \<Rightarrow> nat \<times> heap" where
  "np_ones_bool n h = (length h, h @ [BoolVector (replicate n True)])"

definition setitem_bool :: "nat \<Rightarrow> nat \<Rightarrow> bool \<Rightarrow> heap \<Rightarrow> (py_error + unit) \<times> heap" where
  "setitem_bool a i b h =
     (if i < length (bits_of (h ! a))
      then (Inr (), h[a := BoolVector ((bits_of (h ! a))[i := b])])
      else (Inl IndexError, h))"

fun inner_loop_heap :: "(float64 list list \<Rightarrow> nat \<Rightarrow> nat \<Rightarrow> py_error + bool) \<Rightarrow> nat \<Rightarrow> nat
    \<Rightarrow> nat \<Rightarrow> nat list \<Rightarrow> heap \<Rightarrow> (py_error + unit) \<times> heap" where
  "inner_loop_heap cond scores is_pareto i [] h = (Inr (), h)"
| "inner_loop_heap cond scores is_pareto i (j # js) h =
     (case cond (rows_of (h ! scores)) i j of
        Inl e \<Rightarrow> (Inl e, h)
      | Inr b \<Rightarrow> if b then setitem_bool is_pareto i False h
                else inner_loop_heap cond scores is_pareto i js h)"

fun outer_loop_heap :: "(float64 list list \<Rightarrow> nat \<Rightarrow> nat \<Rightarrow> py_error + bool) \<Rightarrow> nat \<Rightarrow> nat
    \<Rightarrow> nat list \<Rightarrow> heap \<Rightarrow> (py_error + unit) \<times> heap" where
  "outer_loop_heap cond scores is_pareto [] h = (Inr (), h)"
| "outer_loop_heap cond scores is_pareto (i # is) h =
     (case inner_loop_heap cond scores is_pareto i [0..<shape0 h scores] h of
        (Inl e, h') \<Rightarrow> (Inl e, h')
      | (Inr u, h') \<Rightarrow> outer_loop_heap cond scores is_pareto is h')"

definition identify_pareto_heap :: "heap \<Rightarrow> nat \<Rightarrow> bool \<Rightarrow> bool \<Rightarrow> (py_error + nat) \<times> heap" where
  "identify_pareto_heap h scores bigger_is_better_x bigger_is_better_y =
     (let (is_pareto, h1) = np_ones_bool (shape0 h scores) h;
          n = shape0 h1 scores;
          (r, h2) =
            (if bigger_is_better_x \<and> bigger_is_better_y then
               outer_loop_heap cond_max_max scores is_pareto [0..<n] h1
             else if bigger_is_better_x then
               outer_loop_heap cond_max_min scores is_pareto [0..<n] h1
             else if bigger_is_better_y then
               outer_loop_heap cond_min_max scores is_pareto [0..<n] h1
             else
               outer_loop_heap cond_min_min scores is_pareto [0..<n] h1)
      in (case r of Inl e \<Rightarrow> (Inl e, h2) | Inr u \<Rightarrow> (Inr is_pareto, h2)))"

definition returned_mask :: "(py_error + nat) \<times> heap \<Rightarrow> py_error + bool list" where
  "returned_mask c = (case fst c of Inl e \<Rightarrow> Inl e | Inr a \<Rightarrow> Inr (bits_of (snd c ! a)))"

subsection \<open>The loops on well-formed input\<close>

text \<open>
  What the two loops compute when no condition raises: entry \<open>k\<close> of the mask is cleared
  exactly when \<open>k\<close> was visited by the outer loop and some \<open>j\<close> satisfied the condition.
\<close>

lemma inner_loop_result:
  assumes "\<forall>j\<in>set js. cond i j = Inr (c i j)"
  shows "inner_loop cond i js v = Inr (if \<exists>j\<in>set js. c i j then v[i := False] else v)"
  using assms by (induction js) auto

lemma outer_loop_result:
  assumes "\<forall>i\<in>set is. \<forall>j\<in>set js. cond i j = Inr (c i j)"
  shows "\<exists>m. outer_loop cond js is v = Inr m \<and> length m = length v \<and>
           (\<forall>k<length v. m ! k = (v ! k \<and> \<not> (k \<in> set is \<and> (\<exists>j\<in>set js. c k j))))"
  using assms
proof (induction "is" arbitrary: v)
  case Nil
  then show ?case by simp
next
  case (Cons i "is")
  let ?v = "if \<exists>j\<in>set js. c i j then v[i := False] else v"
  have step: "inner_loop cond i js v = Inr ?v"
    using Cons.prems by (intro inner_loop_result) simp
  from Cons.IH[of ?v] Cons.prems obtain m where
    m: "outer_loop cond js is ?v = Inr m" "length m = length ?v"
       "\<forall>k<length ?v. m ! k = (?v ! k \<and> \<not> (k \<in> set is \<and> (\<exists>j\<in>set js. c k j)))"
    by auto
  have len: "length ?v = length v" by simp
  have upd: "\<forall>k<length v. ?v ! k = (v ! k \<and> \<not> (k = i \<and> (\<exists>j\<in>set js. c i j)))"
  proof (intro allI impI)
    fix k assume "k < length v"
    then show "?v ! k = (v ! k \<and> \<not> (k = i \<and> (\<exists>j\<in>set js. c i j)))"
      by (cases "k = i") auto
  qed
  have "outer_loop cond js (i # is) v = Inr m"
    using step m(1) by simp
  moreover have "length m = length v" using m(2) len by simp
  moreover have "\<forall>k<length v. m ! k = (v ! k \<and> \<not> (k \<in> set (i # is) \<and> (\<exists>j\<in>set js. c k j)))"
  proof (intro allI impI)
    fix k assume k: "k < length v"
    have "m ! k = (?v ! k \<and> \<not> (k \<in> set is \<and> (\<exists>j\<in>set js. c k j)))"
      using m(3) k len by metis
    also have "?v ! k = (v ! k \<and> \<not> (k = i \<and> (\<exists>j\<in>set js. c i j)))"
      using upd k by blast
    finally show "m ! k = (v ! k \<and> \<not> (k \<in> set (i # is) \<and> (\<exists>j\<in>set js. c k j)))"
      by auto
  qed
  ultimately show ?case by blast
qed

lemma cond_max_max_points:
  assumes "i < length pts" "j < length pts"
  shows "cond_max_max (scores_of pts) i j = Inr (dominates_max_max (pts ! j) (pts ! i) \<and> i \<noteq> j)"
  using assms
  by (auto simp: cond_max_max_def scores_of_def dominates_max_max_def np_ge_def np_gt_def
      py_all_def py_any_def split: prod.splits)

lemma cond_min_min_points:
  assumes "i < length pts" "j < length pts"
  shows "cond_min_min (scores_of pts) i j = Inr (dominates_min_min (pts ! j) (pts ! i) \<and> i \<noteq> j)"
  using assms
  by (auto simp: cond_min_min_def scores_of_def dominates_min_min_def np_le_def np_lt_def
      py_all_def py_any_def split: prod.splits)

lemma cond_max_min_points:
  assumes "i < length pts" "j < length pts"
  shows "cond_max_min (scores_of pts) i j = Inr (dominates_max_min (pts ! j) (pts ! i) \<and> i \<noteq> j)"
  using assms
  by (auto simp: cond_max_min_def scores_of_def dominates_max_min_def getitem_def bind_err_def
      split: prod.splits)

lemma cond_min_max_points:
  assumes "i < length pts" "j < length pts"
  shows "cond_min_max (scores_of pts) i j = Inr (dominates_min_max (pts ! j) (pts ! i) \<and> i \<noteq> j)"
  using assms
  by (auto simp: cond_min_max_def scores_of_def dominates_min_max_def getitem_def bind_err_def
      split: prod.splits)

lemma length_scores_of: "length (scores_of pts) = length pts"
  by (simp add: scores_of_def)

lemma outer_loop_points:
  assumes "\<And>i j. i < length pts \<Longrightarrow> j < length pts \<Longrightarrow>
             cond i j = Inr (d (pts ! j) (pts ! i) \<and> i \<noteq> j)"
  shows "\<exists>m. outer_loop cond [0..<length pts] [0..<length pts] (replicate (length pts) True) = Inr m \<and>
           length m = length pts \<and>
           (\<forall>i<length pts. m ! i = (\<not> (\<exists>j<length pts. j \<noteq> i \<and> d (pts ! j) (pts ! i))))"
proof -
  let ?n = "length pts"
  let ?c = "\<lambda>i j. d (pts ! j) (pts ! i) \<and> i \<noteq> j"
  have "\<forall>i\<in>set [0..<?n]. \<forall>j\<in>set [0..<?n]. cond i j = Inr (?c i j)"
    using assms by simp
  from outer_loop_result[OF this, of "replicate ?n True"] obtain m where
    m: "outer_loop cond [0..<?n] [0..<?n] (replicate ?n True) = Inr m" "length m = ?n"
       "\<forall>k<?n. m ! k = (replicate ?n True ! k \<and> \<not> (k \<in> set [0..<?n] \<and> (\<exists>j\<in>set [0..<?n]. ?c k j)))"
    by auto
  have "\<forall>i<?n. m ! i = (\<not> (\<exists>j<?n. j \<noteq> i \<and> d (pts ! j) (pts ! i)))"
    using m(3) by auto
  with m(1,2) show ?thesis by blast
qed

lemma outer_loop_mask:
  assumes "\<And>i j. i < length pts \<Longrightarrow> j < length pts \<Longrightarrow>
             cond i j = Inr (d (pts ! j) (pts ! i) \<and> i \<noteq> j)"
  shows "outer_loop cond [0..<length pts] [0..<length pts] (replicate (length pts) True) =
           Inr (pareto_mask d pts)"
proof -
  from outer_loop_points[OF assms] obtain m where
    m: "outer_loop cond [0..<length pts] [0..<length pts] (replicate (length pts) True) = Inr m"
       "length m = length pts"
       "\<forall>i<length pts. m ! i = (\<not> (\<exists>j<length pts. j \<noteq> i \<and> d (pts ! j) (pts ! i)))"
    by blast
  have "m = pareto_mask d pts"
  proof (rule nth_equalityI)
    show "length m = length (pareto_mask d pts)"
      using m(2) by (simp add: pareto_mask_def)
  next
    fix i assume "i < length m"
    then have i: "i < length pts" using m(2) by simp
    have "m ! i = (\<not> (\<exists>j<length pts. j \<noteq> i \<and> d (pts ! j) (pts ! i)))"
      using m(3) i by blast
    also have "\<dots> = non_dominated d pts i"
      by (auto simp: non_dominated_def)
    also have "\<dots> = pareto_mask d pts ! i"
      using i by (simp add: pareto_mask_def)
    finally show "m ! i = pareto_mask d pts ! i" .
  qed
  with m(1) show ?thesis by simp
qed

lemma dominates_cases:
  "dominates True True = dominates_max_max" "dominates True False = dominates_max_min"
  "dominates False True = dominates_min_max" "dominates False False = dominates_min_min"
  by (simp_all add: dominates_def fun_eq_iff)

lemma identify_pareto_points:
  "identify_pareto (scores_of pts) bx by = Inr (pareto_mask (dominates bx by) pts)"
proof -
  note d = dominates_cases
  show ?thesis
  proof (cases bx; cases "by")
    show "bx \<Longrightarrow> by \<Longrightarrow> ?thesis"
      using outer_loop_mask[of pts "cond_max_max (scores_of pts)" dominates_max_max]
      by (simp add: identify_pareto_def Let_def length_scores_of d cond_max_max_points)
    show "bx \<Longrightarrow> \<not> by \<Longrightarrow> ?thesis"
      using outer_loop_mask[of pts "cond_max_min (scores_of pts)" dominates_max_min]
      by (simp add: identify_pareto_def Let_def length_scores_of d cond_max_min_points)
    show "\<not> bx \<Longrightarrow> by \<Longrightarrow> ?thesis"
      using outer_loop_mask[of pts "cond_min_max (scores_of pts)" dominates_min_max]
      by (simp add: identify_pareto_def Let_def length_scores_of d cond_min_max_points)
    show "\<not> bx \<Longrightarrow> \<not> by \<Longrightarrow> ?thesis"
      using outer_loop_mask[of pts "cond_min_min (scores_of pts)" dominates_min_min]
      by (simp add: identify_pareto_def Let_def length_scores_of d cond_min_min_points)
  qed
qed

lemma pareto_mask_nth:
  "i < length pts \<Longrightarrow>
   pareto_mask d pts ! i = (\<not> (\<exists>j<length pts. j \<noteq> i \<and> d (pts ! j) (pts ! i)))"
  by (auto simp: pareto_mask_def non_dominated_def)

lemma length_pareto_mask: "length (pareto_mask d pts) = length pts"
  by (simp add: pareto_mask_def)

subsection \<open>The order on array elements\<close>

text \<open>
  The comparisons are those of a linear order on the numbers that are not \<open>NaN\<close>, so each
  of the four dominance rules is irreflexive and transitive, also when \<open>NaN\<close> occurs.
\<close>

lemma flt_irrefl: "\<not> flt a a"
  by (cases a) simp_all

lemma fle_trans: "fle a b \<Longrightarrow> fle b c \<Longrightarrow> fle a c"
  by (cases a; cases b; cases c) simp_all

lemma flt_fle_trans: "flt a b \<Longrightarrow> fle b c \<Longrightarrow> flt a c"
  by (cases a; cases b; cases c) simp_all

lemma fle_flt_trans: "fle a b \<Longrightarrow> flt b c \<Longrightarrow> flt a c"
  by (cases a; cases b; cases c) simp_all

lemma flt_imp_fle: "flt a b \<Longrightarrow> fle a b"
  by (cases a; cases b) simp_all

lemma dominates_irrefl: "\<not> dominates bx by p p"
  by (simp add: dominates_def dominates_max_max_def dominates_max_min_def
      dominates_min_max_def dominates_min_min_def fgt_def flt_irrefl)

lemma dominates_trans:
  assumes "dominates bx by r q" "dominates bx by q p"
  shows "dominates bx by r p"
  using assms
  unfolding dominates_def dominates_max_max_def dominates_max_min_def
      dominates_min_max_def dominates_min_min_def fge_def fgt_def
  by (auto split: if_splits
      intro: fle_trans flt_fle_trans fle_flt_trans dest: flt_imp_fle)

subsection \<open>Shape of the result\<close>

text \<open>
  Claim C4. For every point set and every direction pair the call returns a mask with one
  entry per point; on the empty point set it returns the empty mask.
\<close>

theorem mask_length:
  "(\<exists>mask. identify_pareto (scores_of pts) bx by = Inr mask \<and> length mask = length pts) \<and>
   identify_pareto (scores_of []) bx by = Inr []"
  by (simp add: identify_pareto_points pareto_mask_def)

theorem mask_length_witness:
  "\<exists>mask. identify_pareto (scores_of [(Finite 1, Finite 2), (Finite 2, Finite 1)]) False True
     = Inr mask \<and> length mask = 2"
  using mask_length [of "[(Finite 1, Finite 2), (Finite 2, Finite 1)]" False True]
  by (simp add: numeral_2_eq_2)

subsection \<open>The front under the pure and the mixed direction pairs\<close>

text \<open>
  Claim C1. With both axes MAXIMIZE the returned mask is the Pareto front under the rule
  "at least as large on both coordinates and strictly larger on one": entry \<open>i\<close> is true
  exactly when no other index \<open>j\<close> holds a point that dominates point \<open>i\<close>. With both axes
  MINIMIZE the same holds for the mirrored rule.
\<close>

theorem pure_front:
  "identify_pareto (scores_of pts) True True = Inr (pareto_mask dominates_max_max pts) \<and>
   identify_pareto (scores_of pts) False False = Inr (pareto_mask dominates_min_min pts)"
  by (simp add: identify_pareto_points dominates_cases)

theorem pure_front_witness:
  "identify_pareto (scores_of [(Finite 1, Finite 2), (Finite 2, Finite 1), (Finite 0, Finite 0)])
     True True = Inr [True, True, False] \<and>
   identify_pareto (scores_of [(Finite 1, Finite 2), (Finite 2, Finite 1), (Finite 0, Finite 0)])
     False False = Inr [False, False, True]"
  using pure_front [of "[(Finite 1, Finite 2), (Finite 2, Finite 1), (Finite 0, Finite 0)]"]
  by (simp add: pareto_mask_def non_dominated_def dominates_max_max_def dominates_min_min_def
      fge_def fgt_def upt_rec)

text \<open>
  Claim C2. Under a mixed direction pair the returned mask is the front of the asymmetric
  rule: with \<open>x\<close> MAXIMIZE and \<open>y\<close> MINIMIZE, \<open>j\<close> dominates \<open>i\<close> when \<open>j.x \<ge> i.x\<close> and
  \<open>j.y < i.y\<close>; with \<open>x\<close> MINIMIZE and \<open>y\<close> MAXIMIZE, when \<open>j.x < i.x\<close> and \<open>j.y \<ge> i.y\<close>.
\<close>

theorem mixed_front:
  "identify_pareto (scores_of pts) True False = Inr (pareto_mask dominates_max_min pts) \<and>
   identify_pareto (scores_of pts) False True = Inr (pareto_mask dominates_min_max pts)"
  by (simp add: identify_pareto_points dominates_cases)

theorem mixed_front_witness:
  "identify_pareto (scores_of [(Finite 1, Finite 2), (Finite 2, Finite 1), (Finite 2, Finite 2)])
     True False = Inr [False, True, False] \<and>
   identify_pareto (scores_of [(Finite 1, Finite 2), (Finite 2, Finite 1), (Finite 2, Finite 2)])
     False True = Inr [True, False, False]"
  using mixed_front [of "[(Finite 1, Finite 2), (Finite 2, Finite 1), (Finite 2, Finite 2)]"]
  by (simp add: pareto_mask_def non_dominated_def dominates_max_min_def dominates_min_max_def
      fge_def fgt_def upt_rec)

text \<open>
  Claim C5. Under a mixed direction pair, the entry of point \<open>i\<close> is cleared exactly when
  some other point is strictly smaller on the MINIMIZE axis and at least as large on the
  MAXIMIZE axis. In particular a point \<open>j\<close> equal to \<open>i\<close> on the MINIMIZE axis never satisfies
  the loop condition, however much better it is on the MAXIMIZE axis.
\<close>

theorem mixed_tie_keeps_point:
  "(i < length pts \<longrightarrow>
      (\<exists>mask. identify_pareto (scores_of pts) True False = Inr mask \<and>
         (mask ! i \<longleftrightarrow>
            \<not> (\<exists>k<length pts. k \<noteq> i \<and> flt (snd (pts ! k)) (snd (pts ! i)) \<and>
                  fge (fst (pts ! k)) (fst (pts ! i))))) \<and>
      (\<exists>mask. identify_pareto (scores_of pts) False True = Inr mask \<and>
         (mask ! i \<longleftrightarrow>
            \<not> (\<exists>k<length pts. k \<noteq> i \<and> flt (fst (pts ! k)) (fst (pts ! i)) \<and>
                  fge (snd (pts ! k)) (snd (pts ! i)))))) \<and>
   (i < length pts \<longrightarrow> j < length pts \<longrightarrow> snd (pts ! j) = snd (pts ! i) \<longrightarrow>
      cond_max_min (scores_of pts) i j = Inr False) \<and>
   (i < length pts \<longrightarrow> j < length pts \<longrightarrow> fst (pts ! j) = fst (pts ! i) \<longrightarrow>
      cond_min_max (scores_of pts) i j = Inr False)"
proof (intro conjI impI)
  assume i: "i < length pts"
  have "pareto_mask dominates_max_min pts ! i \<longleftrightarrow>
      \<not> (\<exists>k<length pts. k \<noteq> i \<and> flt (snd (pts ! k)) (snd (pts ! i)) \<and>
            fge (fst (pts ! k)) (fst (pts ! i)))"
    using i by (auto simp: pareto_mask_nth dominates_max_min_def)
  then show "\<exists>mask. identify_pareto (scores_of pts) True False = Inr mask \<and>
         (mask ! i \<longleftrightarrow>
            \<not> (\<exists>k<length pts. k \<noteq> i \<and> flt (snd (pts ! k)) (snd (pts ! i)) \<and>
                  fge (fst (pts ! k)) (fst (pts ! i))))"
    by (simp add: identify_pareto_points dominates_cases)
next
  assume i: "i < length pts"
  have "pareto_mask dominates_min_max pts ! i \<longleftrightarrow>
      \<not> (\<exists>k<length pts. k \<noteq> i \<and> flt (fst (pts ! k)) (fst (pts ! i)) \<and>
            fge (snd (pts ! k)) (snd (pts ! i)))"
    using i by (auto simp: pareto_mask_nth dominates_min_max_def)
  then show "\<exists>mask. identify_pareto (scores_of pts) False True = Inr mask \<and>
         (mask ! i \<longleftrightarrow>
            \<not> (\<exists>k<length pts. k \<noteq> i \<and> flt (fst (pts ! k)) (fst (pts ! i)) \<and>
                  fge (snd (pts ! k)) (snd (pts ! i))))"
    by (simp add: identify_pareto_points dominates_cases)
next
  assume "i < length pts" "j < length pts" "snd (pts ! j) = snd (pts ! i)"
  then show "cond_max_min (scores_of pts) i j = Inr False"
    by (simp add: cond_max_min_points dominates_max_min_def flt_irrefl)
next
  assume "i < length pts" "j < length pts" "fst (pts ! j) = fst (pts ! i)"
  then show "cond_min_max (scores_of pts) i j = Inr False"
    by (simp add: cond_min_max_points dominates_min_max_def flt_irrefl)
qed

theorem mixed_tie_keeps_point_witness:
  "(\<exists>mask. identify_pareto (scores_of [(Finite 1, Finite 5), (Finite 2, Finite 5)]) True False
      = Inr mask \<and> mask ! 0) \<and>
   cond_max_min (scores_of [(Finite 1, Finite 5), (Finite 2, Finite 5)]) 0 1 = Inr False"
proof -
  let ?P = "[(Finite 1, Finite 5), (Finite 2, Finite 5)]"
  have len: "0 < length ?P" "1 < length ?P" "snd (?P ! 1) = snd (?P ! 0)"
    by simp_all
  have nd: "\<not> (\<exists>k<length ?P. k \<noteq> 0 \<and> flt (snd (?P ! k)) (snd (?P ! 0)) \<and>
      fge (fst (?P ! k)) (fst (?P ! 0)))"
    by (auto simp: less_Suc_eq)
  note t = mixed_tie_keeps_point [of 0 ?P 1]
  from t len(1) nd have "\<exists>mask. identify_pareto (scores_of ?P) True False = Inr mask \<and> mask ! 0"
    by blast
  moreover from t len have "cond_max_min (scores_of ?P) 0 1 = Inr False"
    by blast
  ultimately show ?thesis by blast
qed

subsection \<open>Ties and symmetry under the pure direction pairs\<close>

text \<open>
  Claim C6 as stated fails on the code for a tied cluster next to another point: two equal
  points that a third point dominates both lose their entries, under either pure direction
  pair.
\<close>

theorem tied_cluster_counterexample:
  "identify_pareto (scores_of [(Finite 2, Finite 2), (Finite 2, Finite 2), (Finite 3, Finite 3)])
     True True = Inr [False, False, True] \<and>
   identify_pareto (scores_of [(Finite 2, Finite 2), (Finite 2, Finite 2), (Finite 1, Finite 1)])
     False False = Inr [False, False, True]"
  by (simp add: identify_pareto_def scores_of_def cond_max_max_def cond_min_min_def
      np_ge_def np_gt_def np_le_def np_lt_def py_all_def py_any_def fge_def fgt_def upt_rec)

text \<open>
  Claim C6, amended. Under the pure direction pairs equal points never eliminate each other:
  when all points are identical every entry of the mask is true; the loop condition is false
  between two indices that hold equal points; the entry of a point is true exactly when no
  point different from it dominates it; and the points of a tied cluster share one entry.
\<close>

theorem ties_never_eliminate:
  "((\<forall>k<length pts. pts ! k = p) \<longrightarrow>
      identify_pareto (scores_of pts) b b = Inr (replicate (length pts) True)) \<and>
   (i < length pts \<longrightarrow> j < length pts \<longrightarrow> pts ! j = pts ! i \<longrightarrow>
      cond_max_max (scores_of pts) i j = Inr False \<and> cond_min_min (scores_of pts) i j = Inr False) \<and>
   (\<exists>mask. identify_pareto (scores_of pts) b b = Inr mask \<and>
      (i < length pts \<longrightarrow>
         (mask ! i \<longleftrightarrow>
            \<not> (\<exists>k<length pts. pts ! k \<noteq> pts ! i \<and> dominates b b (pts ! k) (pts ! i))) \<and>
         (j < length pts \<longrightarrow> pts ! j = pts ! i \<longrightarrow> mask ! j = mask ! i)))"
proof (intro conjI impI)
  assume same: "\<forall>k<length pts. pts ! k = p"
  have "pareto_mask (dominates b b) pts = replicate (length pts) True"
  proof (rule nth_equalityI)
    show "length (pareto_mask (dominates b b) pts) = length (replicate (length pts) True)"
      by (simp add: length_pareto_mask)
  next
    fix k assume "k < length (pareto_mask (dominates b b) pts)"
    then have k: "k < length pts" by (simp add: length_pareto_mask)
    then show "pareto_mask (dominates b b) pts ! k = replicate (length pts) True ! k"
      using same by (simp add: pareto_mask_nth dominates_irrefl)
  qed
  then show "identify_pareto (scores_of pts) b b = Inr (replicate (length pts) True)"
    by (simp add: identify_pareto_points)
next
  assume "i < length pts" "j < length pts" "pts ! j = pts ! i"
  then show "cond_max_max (scores_of pts) i j = Inr False"
    using dominates_irrefl[of True True "pts ! i"]
    by (simp add: cond_max_max_points dominates_cases)
next
  assume "i < length pts" "j < length pts" "pts ! j = pts ! i"
  then show "cond_min_min (scores_of pts) i j = Inr False"
    using dominates_irrefl[of False False "pts ! i"]
    by (simp add: cond_min_min_points dominates_cases)
next
  let ?m = "pareto_mask (dominates b b) pts"
  have entry: "?m ! l \<longleftrightarrow>
      \<not> (\<exists>k<length pts. pts ! k \<noteq> pts ! l \<and> dominates b b (pts ! k) (pts ! l))"
    if "l < length pts" for l
  proof -
    have "(\<exists>k<length pts. k \<noteq> l \<and> dominates b b (pts ! k) (pts ! l)) \<longleftrightarrow>
          (\<exists>k<length pts. pts ! k \<noteq> pts ! l \<and> dominates b b (pts ! k) (pts ! l))"
      using dominates_irrefl[of b b "pts ! l"] by metis
    then show ?thesis using that by (simp add: pareto_mask_nth)
  qed
  have "i < length pts \<longrightarrow>
         (?m ! i \<longleftrightarrow>
            \<not> (\<exists>k<length pts. pts ! k \<noteq> pts ! i \<and> dominates b b (pts ! k) (pts ! i))) \<and>
         (j < length pts \<longrightarrow> pts ! j = pts ! i \<longrightarrow> ?m ! j = ?m ! i)"
  proof (intro impI conjI)
    assume i: "i < length pts"
    show "?m ! i \<longleftrightarrow>
        \<not> (\<exists>k<length pts. pts ! k \<noteq> pts ! i \<and> dominates b b (pts ! k) (pts ! i))"
      by (rule entry[OF i])
    assume j: "j < length pts" and eq: "pts ! j = pts ! i"
    show "?m ! j = ?m ! i"
      using entry[OF i] entry[OF j] eq by simp
  qed
  then show "\<exists>mask. identify_pareto (scores_of pts) b b = Inr mask \<and>
      (i < length pts \<longrightarrow>
         (mask ! i \<longleftrightarrow>
            \<not> (\<exists>k<length pts. pts ! k \<noteq> pts ! i \<and> dominates b b (pts ! k) (pts ! i))) \<and>
         (j < length pts \<longrightarrow> pts ! j = pts ! i \<longrightarrow> mask ! j = mask ! i))"
    by (simp add: identify_pareto_points)
qed

theorem ties_never_eliminate_witness:
  "identify_pareto (scores_of [(Finite 1, Finite 1), (Finite 1, Finite 1), (Finite 1, Finite 1)])
     True True = Inr [True, True, True] \<and>
   cond_max_max (scores_of [(Finite 2, Finite 2), (Finite 2, Finite 2), (Finite 1, Finite 3)]) 0 1
     = Inr False \<and>
   (\<exists>mask. identify_pareto
      (scores_of [(Finite 2, Finite 2), (Finite 2, Finite 2), (Finite 1, Finite 3)]) True True
        = Inr mask \<and> mask ! 0 \<and> mask ! 1 = mask ! 0)"
proof -
  let ?A = "[(Finite 1, Finite 1), (Finite 1, Finite 1), (Finite 1, Finite 1)]"
  let ?P = "[(Finite 2, Finite 2), (Finite 2, Finite 2), (Finite 1, Finite 3)]"
  have same: "\<forall>k<length ?A. ?A ! k = (Finite 1, Finite 1)"
    by (auto simp: less_Suc_eq)
  have idx: "0 < length ?P" "1 < length ?P" "?P ! 1 = ?P ! 0"
    by simp_all
  have nd: "\<not> (\<exists>k<length ?P. ?P ! k \<noteq> ?P ! 0 \<and> dominates True True (?P ! k) (?P ! 0))"
    by (auto simp: less_Suc_eq dominates_cases dominates_max_max_def fge_def fgt_def)
  from ties_never_eliminate [of ?A "(Finite 1, Finite 1)" True 0 0] same
  have a: "identify_pareto (scores_of ?A) True True = Inr [True, True, True]"
    by (simp add: numeral_3_eq_3)
  note t = ties_never_eliminate [of ?P "(Finite 2, Finite 2)" True 0 1]
  from t idx have c: "cond_max_max (scores_of ?P) 0 1 = Inr False"
    by blast
  from t obtain mask where m: "identify_pareto (scores_of ?P) True True = Inr mask"
    "0 < length ?P \<longrightarrow>
       (mask ! 0 \<longleftrightarrow>
          \<not> (\<exists>k<length ?P. ?P ! k \<noteq> ?P ! 0 \<and> dominates True True (?P ! k) (?P ! 0))) \<and>
       (1 < length ?P \<longrightarrow> ?P ! 1 = ?P ! 0 \<longrightarrow> mask ! 1 = mask ! 0)"
    by blast
  from m(2) idx nd have "mask ! 0 \<and> mask ! 1 = mask ! 0"
    by blast
  with m(1) a c show ?thesis by blast
qed

text \<open>
  Claim C7. For the pure direction pairs, exchanging the two coordinates of every point
  leaves the returned mask unchanged.
\<close>

theorem swap_invariance:
  "identify_pareto (scores_of (map prod.swap pts)) b b = identify_pareto (scores_of pts) b b"
proof -
  have "pareto_mask (dominates b b) (map prod.swap pts) = pareto_mask (dominates b b) pts"
    by (auto simp: pareto_mask_def non_dominated_def dominates_def dominates_max_max_def
        dominates_min_min_def)
  then show ?thesis by (simp add: identify_pareto_points)
qed

theorem swap_invariance_witness:
  "identify_pareto (scores_of [(Finite 2, Finite 1), (Finite 1, Finite 2), (Finite 0, Finite 0)])
     True True =
   identify_pareto (scores_of [(Finite 1, Finite 2), (Finite 2, Finite 1), (Finite 0, Finite 0)])
     True True"
  using swap_invariance [of "[(Finite 1, Finite 2), (Finite 2, Finite 1), (Finite 0, Finite 0)]" True]
  by simp

subsection \<open>A non-empty input has a non-empty front\<close>

lemma maximal_element:
  assumes "xs \<noteq> []" "\<And>x. \<not> R x x" "\<And>x y z. R x y \<Longrightarrow> R y z \<Longrightarrow> R x z"
  shows "\<exists>m\<in>set xs. \<forall>y\<in>set xs. \<not> R y m"
  using assms(1)
proof (induction xs)
  case Nil
  then show ?case by simp
next
  case (Cons x xs)
  show ?case
  proof (cases "xs = []")
    case True
    then show ?thesis using assms(2) by simp
  next
    case False
    with Cons.IH obtain m where m: "m \<in> set xs" "\<forall>y\<in>set xs. \<not> R y m" by blast
    show ?thesis
    proof (cases "R x m")
      case True
      have "\<forall>y\<in>set (x # xs). \<not> R y x"
        using assms(2,3) m(2) True by auto
      then show ?thesis by auto
    next
      case False
      then show ?thesis using m by auto
    qed
  qed
qed

text \<open>
  Claim C10. For every non-empty point set without NaN coordinates and each of the four
  direction pairs, the returned mask has at least one true entry.
\<close>

theorem front_nonempty:
  assumes "pts \<noteq> []" "no_nan pts"
  shows "\<exists>mask. identify_pareto (scores_of pts) bx by = Inr mask \<and> True \<in> set mask"
proof -
  have "\<exists>m\<in>set pts. \<forall>q\<in>set pts. \<not> dominates bx by q m"
  proof (rule maximal_element[OF assms(1)])
    show "\<And>x. \<not> dominates bx by x x"
      by (rule dominates_irrefl)
    show "\<And>x y z. dominates bx by x y \<Longrightarrow> dominates bx by y z \<Longrightarrow> dominates bx by x z"
      by (rule dominates_trans)
  qed
  then obtain m where m: "m \<in> set pts" "\<forall>q\<in>set pts. \<not> dominates bx by q m"
    by blast
  from m(1) obtain i where i: "i < length pts" "pts ! i = m"
    by (auto simp: in_set_conv_nth)
  have "pareto_mask (dominates bx by) pts ! i"
    using i m(2) by (simp add: pareto_mask_nth)
  then have "True \<in> set (pareto_mask (dominates bx by) pts)"
    using i(1) by (metis length_pareto_mask nth_mem)
  then show ?thesis
    by (simp add: identify_pareto_points)
qed

theorem front_nonempty_witness:
  "\<exists>mask. identify_pareto (scores_of [(Finite 1, Finite 2), (PosInf, NegInf)]) True False = Inr mask
     \<and> True \<in> set mask"
  using front_nonempty [of "[(Finite 1, Finite 2), (PosInf, NegInf)]" True False]
  by (simp add: no_nan_def)

subsection \<open>Failure modes\<close>









subsection \<open>The call on a store\<close>

text \<open>
  On the store the function allocates one array, writes to that array only, and yields
  what \<open>identify_pareto\<close> yields on the contents of the array that \<open>scores\<close> refers to. When
  the call returns, the new array holds the mask; when it raises, the new array still has
  one entry per row.
\<close>

lemma inner_loop_length:
  "inner_loop c i js v = Inr w \<Longrightarrow> length w = length v"
  by (induction js) (auto split: sum.splits if_splits)

lemma inner_loop_heap_pure:
  assumes "p < length h" "s \<noteq> p" "h ! s = FloatMatrix m" "h ! p = BoolVector v" "i < length v"
  shows "inner_loop_heap cond s p i js h =
           (case inner_loop (cond m) i js v of
              Inl e \<Rightarrow> (Inl e, h)
            | Inr v' \<Rightarrow> (Inr (), h[p := BoolVector v']))"
proof (induction js)
  case Nil
  have "h[p := BoolVector v] = h"
    using assms(4) by (metis list_update_id)
  then show ?case by simp
next
  case (Cons j js)
  show ?case
  proof (cases "cond m i j")
    case (Inl e)
    then show ?thesis using assms(3) by simp
  next
    case (Inr b)
    then show ?thesis
      using assms(3,4,5) Cons.IH by (simp add: setitem_bool_def)
  qed
qed

lemma outer_loop_heap_pure:
  assumes "p < length h" "s \<noteq> p" "h ! s = FloatMatrix m" "h ! p = BoolVector v"
    "\<forall>i\<in>set idxs. i < length v"
  shows "\<exists>v'. length v' = length v \<and>
           outer_loop_heap cond s p idxs h =
             (map_sum id (\<lambda>x. ()) (outer_loop (cond m) [0..<length m] idxs v),
              h[p := BoolVector v']) \<and>
           (\<forall>mask. outer_loop (cond m) [0..<length m] idxs v = Inr mask \<longrightarrow> v' = mask)"
  using assms
proof (induction idxs arbitrary: h v)
  case Nil
  have "h[p := BoolVector v] = h"
    using Nil.prems(4) by (metis list_update_id)
  then show ?case by auto
next
  case (Cons i idxs)
  have i: "i < length v" using Cons.prems(5) by simp
  have sh: "shape0 h s = length m"
    using Cons.prems(3) by (simp add: shape0_def)
  note step = inner_loop_heap_pure[OF Cons.prems(1,2,3,4) i, of cond "[0..<length m]"]
  show ?case
  proof (cases "inner_loop (cond m) i [0..<length m] v")
    case (Inl e)
    have "h[p := BoolVector v] = h"
      using Cons.prems(4) by (metis list_update_id)
    then show ?thesis
      using step Inl sh by auto
  next
    case (Inr w)
    let ?h = "h[p := BoolVector w]"
    have lw: "length w = length v"
      using Inr by (rule inner_loop_length)
    have pre: "p < length ?h" "?h ! s = FloatMatrix m" "?h ! p = BoolVector w"
      "\<forall>i\<in>set idxs. i < length w"
      using Cons.prems lw by simp_all
    from Cons.IH[OF pre(1) Cons.prems(2) pre(2,3,4)] obtain v' where
      v': "length v' = length w"
        "outer_loop_heap cond s p idxs ?h =
           (map_sum id (\<lambda>x. ()) (outer_loop (cond m) [0..<length m] idxs w),
            ?h[p := BoolVector v'])"
        "\<forall>mask. outer_loop (cond m) [0..<length m] idxs w = Inr mask \<longrightarrow> v' = mask"
      by blast
    have "outer_loop_heap cond s p (i # idxs) h =
        (map_sum id (\<lambda>x. ()) (outer_loop (cond m) [0..<length m] (i # idxs) v),
         h[p := BoolVector v'])"
      using step Inr sh v'(2) by simp
    moreover have "\<forall>mask. outer_loop (cond m) [0..<length m] (i # idxs) v = Inr mask \<longrightarrow> v' = mask"
      using Inr v'(3) by simp
    moreover have "length v' = length v"
      using v'(1) lw by simp
    ultimately show ?thesis by blast
  qed
qed

lemma identify_pareto_heap_pure:
  assumes "s < length h" "h ! s = FloatMatrix m"
  shows "\<exists>v'. length v' = length m \<and>
           identify_pareto_heap h s bx by =
             (map_sum id (\<lambda>x. length h) (identify_pareto m bx by), h @ [BoolVector v']) \<and>
           (\<forall>mask. identify_pareto m bx by = Inr mask \<longrightarrow> v' = mask)"
proof -
  let ?n = "length m"
  let ?v = "replicate ?n True"
  let ?h1 = "h @ [BoolVector ?v]"
  have pre: "length h < length ?h1" "s \<noteq> length h" "?h1 ! s = FloatMatrix m"
    "?h1 ! length h = BoolVector ?v" "\<forall>i\<in>set [0..<?n]. i < length ?v"
    using assms by (simp_all add: nth_append)
  have sh: "shape0 h s = ?n" "shape0 ?h1 s = ?n"
    using assms pre(3) by (simp_all add: shape0_def del: nth_append_length)
  have run: "\<exists>v'. length v' = ?n \<and>
           outer_loop_heap cond s (length h) [0..<?n] ?h1 =
             (map_sum id (\<lambda>x. ()) (outer_loop (cond m) [0..<?n] [0..<?n] ?v),
              h @ [BoolVector v']) \<and>
           (\<forall>mask. outer_loop (cond m) [0..<?n] [0..<?n] ?v = Inr mask \<longrightarrow> v' = mask)" for cond
    using outer_loop_heap_pure[OF pre, of cond] by simp
  show ?thesis
  proof (cases bx; cases "by")
    assume b: "bx" "by"
    from run[of cond_max_max] obtain v' where v': "length v' = ?n"
      "outer_loop_heap cond_max_max s (length h) [0..<?n] ?h1 =
         (map_sum id (\<lambda>x. ()) (outer_loop (cond_max_max m) [0..<?n] [0..<?n] ?v),
          h @ [BoolVector v'])"
      "\<forall>mask. outer_loop (cond_max_max m) [0..<?n] [0..<?n] ?v = Inr mask \<longrightarrow> v' = mask"
      by blast
    show ?thesis
      apply (rule exI[of _ v'])
      using b v' sh
      by (cases "outer_loop (cond_max_max m) [0..<?n] [0..<?n] ?v")
        (simp_all add: identify_pareto_heap_def identify_pareto_def np_ones_bool_def Let_def)
  next
    assume b: "bx" "\<not> by"
    from run[of cond_max_min] obtain v' where v': "length v' = ?n"
      "outer_loop_heap cond_max_min s (length h) [0..<?n] ?h1 =
         (map_sum id (\<lambda>x. ()) (outer_loop (cond_max_min m) [0..<?n] [0..<?n] ?v),
          h @ [BoolVector v'])"
      "\<forall>mask. outer_loop (cond_max_min m) [0..<?n] [0..<?n] ?v = Inr mask \<longrightarrow> v' = mask"
      by blast
    show ?thesis
      apply (rule exI[of _ v'])
      using b v' sh
      by (cases "outer_loop (cond_max_min m) [0..<?n] [0..<?n] ?v")
        (simp_all add: identify_pareto_heap_def identify_pareto_def np_ones_bool_def Let_def)
  next
    assume b: "\<not> bx" "by"
    from run[of cond_min_max] obtain v' where v': "length v' = ?n"
      "outer_loop_heap cond_min_max s (length h) [0..<?n] ?h1 =
         (map_sum id (\<lambda>x. ()) (outer_loop (cond_min_max m) [0..<?n] [0..<?n] ?v),
          h @ [BoolVector v'])"
      "\<forall>mask. outer_loop (cond_min_max m) [0..<?n] [0..<?n] ?v = Inr mask \<longrightarrow> v' = mask"
      by blast
    show ?thesis
      apply (rule exI[of _ v'])
      using b v' sh
      by (cases "outer_loop (cond_min_max m) [0..<?n] [0..<?n] ?v")
        (simp_all add: identify_pareto_heap_def identify_pareto_def np_ones_bool_def Let_def)
  next
    assume b: "\<not> bx" "\<not> by"
    from run[of cond_min_min] obtain v' where v': "length v' = ?n"
      "outer_loop_heap cond_min_min s (length h) [0..<?n] ?h1 =
         (map_sum id (\<lambda>x. ()) (outer_loop (cond_min_min m) [0..<?n] [0..<?n] ?v),
          h @ [BoolVector v'])"
      "\<forall>mask. outer_loop (cond_min_min m) [0..<?n] [0..<?n] ?v = Inr mask \<longrightarrow> v' = mask"
      by blast
    show ?thesis
      apply (rule exI[of _ v'])
      using b v' sh
      by (cases "outer_loop (cond_min_min m) [0..<?n] [0..<?n] ?v")
        (simp_all add: identify_pareto_heap_def identify_pareto_def np_ones_bool_def Let_def)
  qed
qed

text \<open>
  Claim C9. The call has no effect on its input. When \<open>scores\<close> refers to the array of a
  point set, the call returns the address of a newly allocated array: this address is none
  of those in use before the call, so it is not the address of the input; every array that
  existed before the call, the input among them, has the contents it had; and the new array
  holds the mask. Whatever two-dimensional array \<open>scores\<close> refers to, also when the call
  raises, the arrays that existed before the call are unchanged.
\<close>

theorem input_unchanged:
  assumes "scores < length h"
  shows "(h ! scores = FloatMatrix (scores_of pts) \<longrightarrow>
           (\<exists>is_pareto h' mask.
              identify_pareto_heap h scores bx by = (Inr is_pareto, h') \<and>
              is_pareto = length h \<and> is_pareto \<noteq> scores \<and>
              length h' = Suc (length h) \<and> (\<forall>a<length h. h' ! a = h ! a) \<and>
              h' ! scores = FloatMatrix (scores_of pts) \<and>
              h' ! is_pareto = BoolVector mask \<and>
              identify_pareto (scores_of pts) bx by = Inr mask)) \<and>
         (h ! scores = FloatMatrix m \<longrightarrow>
           (\<exists>r h'. identify_pareto_heap h scores bx by = (r, h') \<and>
              length h' = Suc (length h) \<and> (\<forall>a<length h. h' ! a = h ! a)))"
proof (intro conjI impI)
  assume s: "h ! scores = FloatMatrix (scores_of pts)"
  let ?mask = "pareto_mask (dominates bx by) pts"
  have pure: "identify_pareto (scores_of pts) bx by = Inr ?mask"
    by (rule identify_pareto_points)
  from identify_pareto_heap_pure[OF assms s, of bx "by"] pure
  have run: "identify_pareto_heap h scores bx by = (Inr (length h), h @ [BoolVector ?mask])"
    by auto
  have "length h \<noteq> scores" using assms by simp
  moreover have "length (h @ [BoolVector ?mask]) = Suc (length h)" by simp
  moreover have "\<forall>a<length h. (h @ [BoolVector ?mask]) ! a = h ! a"
    by (simp add: nth_append)
  moreover have "(h @ [BoolVector ?mask]) ! scores = FloatMatrix (scores_of pts)"
    using assms s by (simp add: nth_append)
  moreover have "(h @ [BoolVector ?mask]) ! length h = BoolVector ?mask"
    by simp
  ultimately show "\<exists>is_pareto h' mask.
              identify_pareto_heap h scores bx by = (Inr is_pareto, h') \<and>
              is_pareto = length h \<and> is_pareto \<noteq> scores \<and>
              length h' = Suc (length h) \<and> (\<forall>a<length h. h' ! a = h ! a) \<and>
              h' ! scores = FloatMatrix (scores_of pts) \<and>
              h' ! is_pareto = BoolVector mask \<and>
              identify_pareto (scores_of pts) bx by = Inr mask"
    using run pure by blast
next
  assume s: "h ! scores = FloatMatrix m"
  from identify_pareto_heap_pure[OF assms s, of bx "by"] obtain v' where
    run: "identify_pareto_heap h scores bx by =
      (map_sum id (\<lambda>x. length h) (identify_pareto m bx by), h @ [BoolVector v'])"
    by blast
  have "length (h @ [BoolVector v']) = Suc (length h)" by simp
  moreover have "\<forall>a<length h. (h @ [BoolVector v']) ! a = h ! a"
    by (simp add: nth_append)
  ultimately show "\<exists>r h'. identify_pareto_heap h scores bx by = (r, h') \<and>
              length h' = Suc (length h) \<and> (\<forall>a<length h. h' ! a = h ! a)"
    using run by blast
qed

theorem input_unchanged_witness:
  "\<exists>h'. identify_pareto_heap
      [BoolVector [True], FloatMatrix (scores_of [(Finite 1, Finite 2), (Finite 2, Finite 1), (Finite 0, Finite 0)])]
      1 True True = (Inr 2, h') \<and>
     h' ! 0 = BoolVector [True] \<and>
     h' ! 1 = FloatMatrix (scores_of [(Finite 1, Finite 2), (Finite 2, Finite 1), (Finite 0, Finite 0)]) \<and>
     h' ! 2 = BoolVector [True, True, False]"
proof -
  let ?P = "[(Finite 1, Finite 2), (Finite 2, Finite 1), (Finite 0, Finite 0)]"
  let ?h = "[BoolVector [True], FloatMatrix (scores_of ?P)]"
  have pre: "1 < length ?h" "?h ! 1 = FloatMatrix (scores_of ?P)"
    by simp_all
  have pure: "identify_pareto (scores_of ?P) True True = Inr [True, True, False]"
    by (simp add: identify_pareto_points pareto_mask_def non_dominated_def dominates_cases
        dominates_max_max_def fge_def fgt_def upt_rec)
  from input_unchanged [of 1 ?h ?P True True] pre obtain is_pareto h' mask where
    r: "identify_pareto_heap ?h 1 True True = (Inr is_pareto, h')"
       "is_pareto = length ?h" "\<forall>a<length ?h. h' ! a = ?h ! a"
       "h' ! is_pareto = BoolVector mask"
       "identify_pareto (scores_of ?P) True True = Inr mask"
    by blast
  have "is_pareto = 2" using r(2) by simp
  moreover have "mask = [True, True, False]" using r(5) pure by simp
  moreover have "h' ! 0 = ?h ! 0" "h' ! 1 = ?h ! 1" using r(3) by simp_all
  ultimately show ?thesis using r(1,4) by simp
qed

text \<open>
  Claim C8. The call is deterministic and keeps no hidden state. What the caller gets back,
  the exception or the contents of the returned mask, is determined by the contents of the
  input array and the two flags: it is what \<open>identify_pareto\<close> yields on these contents, the
  same in any two stores and at any two addresses holding an array with these contents. In
  particular a second call, made in the store that the first call left behind, returns a
  mask identical to the first, and leaves the first mask as it was.
\<close>

theorem call_deterministic:
  assumes "s1 < length h1" "h1 ! s1 = FloatMatrix m" "s2 < length h2" "h2 ! s2 = FloatMatrix m"
  shows "returned_mask (identify_pareto_heap h1 s1 bx by) = identify_pareto m bx by \<and>
         returned_mask (identify_pareto_heap h2 s2 bx by) =
           returned_mask (identify_pareto_heap h1 s1 bx by) \<and>
         (identify_pareto_heap h1 s1 bx by = (r, h') \<longrightarrow>
            returned_mask (identify_pareto_heap h' s1 bx by) = returned_mask (r, h') \<and>
            returned_mask (r, snd (identify_pareto_heap h' s1 bx by)) = returned_mask (r, h'))"
proof -
  have obs: "returned_mask (identify_pareto_heap h s bx by) = identify_pareto m bx by"
    if "s < length h" "h ! s = FloatMatrix m" for h s
  proof -
    from identify_pareto_heap_pure[OF that, of bx "by"] obtain v' where
      v': "identify_pareto_heap h s bx by =
          (map_sum id (\<lambda>x. length h) (identify_pareto m bx by), h @ [BoolVector v'])"
        "\<forall>mask. identify_pareto m bx by = Inr mask \<longrightarrow> v' = mask"
      by blast
    show ?thesis
      using v' by (cases "identify_pareto m bx by") (simp_all add: returned_mask_def)
  qed
  have a: "returned_mask (identify_pareto_heap h1 s1 bx by) = identify_pareto m bx by"
    by (rule obs[OF assms(1,2)])
  have b: "returned_mask (identify_pareto_heap h2 s2 bx by) = identify_pareto m bx by"
    by (rule obs[OF assms(3,4)])
  have c: "returned_mask (identify_pareto_heap h' s1 bx by) = returned_mask (r, h') \<and>
      returned_mask (r, snd (identify_pareto_heap h' s1 bx by)) = returned_mask (r, h')"
    if call: "identify_pareto_heap h1 s1 bx by = (r, h')"
  proof -
    from identify_pareto_heap_pure[OF assms(1,2), of bx "by"] call obtain v' where
      v': "r = map_sum id (\<lambda>x. length h1) (identify_pareto m bx by)" "h' = h1 @ [BoolVector v']"
      by auto
    have pre: "s1 < length h'" "h' ! s1 = FloatMatrix m"
      using assms(1,2) v'(2) by (simp_all add: nth_append)
    from identify_pareto_heap_pure[OF pre, of bx "by"] obtain v'' where
      v'': "identify_pareto_heap h' s1 bx by =
          (map_sum id (\<lambda>x. length h') (identify_pareto m bx by), h' @ [BoolVector v''])"
      by blast
    have "returned_mask (identify_pareto_heap h' s1 bx by) = returned_mask (r, h')"
      using obs[OF pre] a call by simp
    moreover have "returned_mask (r, snd (identify_pareto_heap h' s1 bx by)) = returned_mask (r, h')"
      using v'' v' by (cases "identify_pareto m bx by") (simp_all add: returned_mask_def nth_append)
    ultimately show ?thesis by blast
  qed
  from a b c show ?thesis by simp
qed

theorem call_deterministic_witness:
  "returned_mask (identify_pareto_heap
      [FloatMatrix (scores_of [(Finite 1, Finite 2), (Finite 2, Finite 1), (Finite 0, Finite 0)])]
      0 True True) = Inr [True, True, False] \<and>
   returned_mask (identify_pareto_heap
      [BoolVector [False],
       FloatMatrix (scores_of [(Finite 1, Finite 2), (Finite 2, Finite 1), (Finite 0, Finite 0)])]
      1 True True) =
   returned_mask (identify_pareto_heap
      [FloatMatrix (scores_of [(Finite 1, Finite 2), (Finite 2, Finite 1), (Finite 0, Finite 0)])]
      0 True True) \<and>
   returned_mask (identify_pareto_heap
      (snd (identify_pareto_heap
         [FloatMatrix (scores_of [(Finite 1, Finite 2), (Finite 2, Finite 1), (Finite 0, Finite 0)])]
         0 True True))
      0 True True) =
   returned_mask (identify_pareto_heap
      [FloatMatrix (scores_of [(Finite 1, Finite 2), (Finite 2, Finite 1), (Finite 0, Finite 0)])]
      0 True True)"
proof -
  let ?P = "[(Finite 1, Finite 2), (Finite 2, Finite 1), (Finite 0, Finite 0)]"
  let ?h1 = "[FloatMatrix (scores_of ?P)]"
  let ?h2 = "[BoolVector [False], FloatMatrix (scores_of ?P)]"
  let ?c = "identify_pareto_heap ?h1 0 True True"
  have pre: "0 < length ?h1" "?h1 ! 0 = FloatMatrix (scores_of ?P)"
    "1 < length ?h2" "?h2 ! 1 = FloatMatrix (scores_of ?P)" "?c = (fst ?c, snd ?c)"
    by simp_all
  have pure: "identify_pareto (scores_of ?P) True True = Inr [True, True, False]"
    by (simp add: identify_pareto_points pareto_mask_def non_dominated_def dominates_cases
        dominates_max_max_def fge_def fgt_def upt_rec)
  note t = call_deterministic [OF pre(1,2,3,4), of True True "fst ?c" "snd ?c"]
  from t pre(5) pure show ?thesis
    by simp
qed

end
